theory Spec2Isabelle
  imports Main "HOL-Library.Sublist"
begin

section \<open>Python values, strings and exceptions\<close>

text \<open>
  Python strings are modelled as \<^typ>\<open>string\<close>. The model is exact for ASCII text; the
  Unicode-specific behaviour of Python on characters beyond ASCII (further whitespace
  characters, case mapping, UTF-8 decoding of percent escapes) is not modelled.

  A raised exception is a value: every function that can raise returns
  \<open>py_exception + 'a\<close>, with \<open>Inl\<close> for the exception.
\<close>

datatype py_exception =
    KeyError string
  | IndexError string
  | ValueError string
  | AttributeError string
  | ServiceError string

text \<open>\<open>str(e)\<close>: a \<open>KeyError\<close> prints the repr of its key, the others their message.\<close>

fun exception_str :: "py_exception \<Rightarrow> string" where
  "exception_str (KeyError k) = [CHR 0x27] @ k @ [CHR 0x27]"
| "exception_str (IndexError m) = m"
| "exception_str (ValueError m) = m"
| "exception_str (AttributeError m) = m"
| "exception_str (ServiceError m) = m"

text \<open>\<open>s.startswith(p)\<close>\<close>

definition startswith :: "string \<Rightarrow> string \<Rightarrow> bool" where
  "startswith s p = (take (length p) s = p)"

text \<open>\<open>s.split(c)\<close> for a separator of one character: every occurrence splits, empty
  pieces are kept, and the result is never empty.\<close>

fun split_on :: "char \<Rightarrow> string \<Rightarrow> string list" where
  "split_on c [] = [[]]"
| "split_on c (x # xs) =
     (if x = c then [] # split_on c xs
      else (case split_on c xs of
              [] \<Rightarrow> [[x]]
            | y # ys \<Rightarrow> (x # y) # ys))"

text \<open>\<open>xs[i]\<close> for an index \<open>i \<ge> 0\<close>: out of range raises \<open>IndexError\<close>.\<close>

definition index :: "'a list \<Rightarrow> nat \<Rightarrow> py_exception + 'a" where
  "index xs i =
     (if i < length xs then Inr (xs ! i) else Inl (IndexError ''list index out of range''))"

text \<open>\<open>s.partition(c)\<close> and \<open>s.rpartition(c)\<close> for a separator of one character: the
  part before, whether the separator was found, the part after.\<close>

definition partition_on :: "char \<Rightarrow> string \<Rightarrow> string \<times> bool \<times> string" where
  "partition_on c s =
     (takeWhile (\<lambda>x. x \<noteq> c) s, c \<in> set s, drop 1 (dropWhile (\<lambda>x. x \<noteq> c) s))"

definition rpartition_on :: "char \<Rightarrow> string \<Rightarrow> string \<times> bool \<times> string" where
  "rpartition_on c s =
     (if c \<in> set s
      then (rev (drop 1 (dropWhile (\<lambda>x. x \<noteq> c) (rev s))), True,
            rev (takeWhile (\<lambda>x. x \<noteq> c) (rev s)))
      else ([], False, s))"

definition ascii_upper :: "char \<Rightarrow> bool" where
  "ascii_upper c = (65 \<le> (of_char c :: nat) \<and> (of_char c :: nat) \<le> 90)"

definition ascii_lower :: "char \<Rightarrow> bool" where
  "ascii_lower c = (97 \<le> (of_char c :: nat) \<and> (of_char c :: nat) \<le> 122)"

definition ascii_digit :: "char \<Rightarrow> bool" where
  "ascii_digit c = (48 \<le> (of_char c :: nat) \<and> (of_char c :: nat) \<le> 57)"

text \<open>\<open>s.lower()\<close> on ASCII letters.\<close>

definition lower :: "string \<Rightarrow> string" where
  "lower s = map (\<lambda>c. if ascii_upper c then char_of (of_char c + (32 :: nat)) else c) s"

text \<open>\<open>s.strip()\<close>: the ASCII characters for which \<open>str.isspace\<close> holds are removed from
  both ends.\<close>

definition isspace :: "char \<Rightarrow> bool" where
  "isspace c = ((9 \<le> (of_char c :: nat) \<and> (of_char c :: nat) \<le> 13)
                \<or> (28 \<le> (of_char c :: nat) \<and> (of_char c :: nat) \<le> 32))"

definition strip :: "string \<Rightarrow> string" where
  "strip s = rev (dropWhile isspace (rev (dropWhile isspace s)))"

text \<open>\<open>sep.join(xs)\<close>\<close>

fun join :: "string \<Rightarrow> string list \<Rightarrow> string" where
  "join sep [] = []"
| "join sep [x] = x"
| "join sep (x # y # ys) = x @ sep @ join sep (y # ys)"

section \<open>The standard library: \<open>urllib.parse\<close>\<close>

text \<open>
  \<open>urlparse\<close> and \<open>parse_qs\<close> are functions of Python's standard library, modelled here
  after CPython 3.11 (\<open>Lib/urllib/parse.py\<close>). Two validity checks that \<open>urlsplit\<close> makes
  on exotic network locations are left out: that a host in square brackets is an IPv6 or
  IPvFuture literal, and the NFKC check of a non-ASCII network location. Where they
  apply the library raises \<open>ValueError\<close>. The properties of the resolver below are stated
  relative to the result of \<open>urlparse\<close>, so they do not depend on these two checks.
\<close>

record parse_result =
  scheme :: string
  netloc :: string
  path :: string
  params :: string
  query :: string
  fragment :: string

definition scheme_chars :: "char \<Rightarrow> bool" where
  "scheme_chars c =
     (ascii_lower c \<or> ascii_upper c \<or> ascii_digit c \<or> c \<in> set ''+-.'')"

definition uses_params :: "string list" where
  "uses_params = ['''', ''ftp'', ''hdl'', ''prospero'', ''http'', ''imap'',
                  ''https'', ''shttp'', ''rtsp'', ''rtsps'', ''rtspu'', ''sip'',
                  ''sips'', ''mms'', ''sftp'', ''tel'']"

text \<open>\<open>_splitnetloc(url, 2)\<close>: the network location runs from index 2 to the first of
  \<open>/\<close>, \<open>?\<close>, \<open>#\<close>.\<close>

definition splitnetloc :: "string \<Rightarrow> string \<times> string" where
  "splitnetloc url =
     (takeWhile (\<lambda>c. c \<notin> set ''/?#'') (drop 2 url),
      dropWhile (\<lambda>c. c \<notin> set ''/?#'') (drop 2 url))"

text \<open>\<open>_splitparams(url)\<close>, called when the path contains a semicolon: the parameters
  start at the first semicolon of the last path segment.\<close>

definition splitparams :: "string \<Rightarrow> string \<times> string" where
  "splitparams url =
     (if CHR ''/'' \<in> set url
      then (let (before, _, segment) = rpartition_on CHR ''/'' url
            in if CHR '';'' \<in> set segment
               then (before @ ''/'' @ takeWhile (\<lambda>c. c \<noteq> CHR '';'') segment,
                     drop 1 (dropWhile (\<lambda>c. c \<noteq> CHR '';'') segment))
               else (url, []))
      else (takeWhile (\<lambda>c. c \<noteq> CHR '';'') url,
            drop 1 (dropWhile (\<lambda>c. c \<noteq> CHR '';'') url)))"

text \<open>\<open>urlsplit(url)\<close>: leading C0 control characters and spaces are stripped, tabs and
  newlines removed; then scheme, network location, fragment and query are split off, in
  this order. A network location with an unmatched square bracket raises.\<close>

definition urlsplit :: "string \<Rightarrow> py_exception + parse_result" where
  "urlsplit url0 =
     (let url1 = dropWhile (\<lambda>c. (of_char c :: nat) \<le> 32) url0;
          url2 = filter (\<lambda>c. c \<notin> set [char_of (9 :: nat), char_of (13 :: nat), char_of (10 :: nat)]) url1;
          head = takeWhile (\<lambda>c. c \<noteq> CHR '':'') url2;
          (scheme', url3) =
            (if CHR '':'' \<in> set url2 \<and> head \<noteq> []
                \<and> (ascii_lower (hd head) \<or> ascii_upper (hd head))
                \<and> list_all scheme_chars head
             then (lower head, drop (length head + 1) url2)
             else ([], url2));
          (netloc', url4) =
            (if take 2 url3 = ''//'' then splitnetloc url3 else ([], url3))
      in if (CHR ''['' \<in> set netloc' \<and> CHR '']'' \<notin> set netloc')
            \<or> (CHR '']'' \<in> set netloc' \<and> CHR ''['' \<notin> set netloc')
         then Inl (ValueError ''Invalid IPv6 URL'')
         else
           (let (url5, fragment') =
                  (if CHR ''#'' \<in> set url4
                   then (takeWhile (\<lambda>c. c \<noteq> CHR ''#'') url4,
                         drop 1 (dropWhile (\<lambda>c. c \<noteq> CHR ''#'') url4))
                   else (url4, []));
                (url6, query') =
                  (if CHR ''?'' \<in> set url5
                   then (takeWhile (\<lambda>c. c \<noteq> CHR ''?'') url5,
                         drop 1 (dropWhile (\<lambda>c. c \<noteq> CHR ''?'') url5))
                   else (url5, []))
            in Inr \<lparr>scheme = scheme', netloc = netloc', path = url6, params = [],
                     query = query', fragment = fragment'\<rparr>))"

definition urlparse :: "string \<Rightarrow> py_exception + parse_result" where
  "urlparse url =
     (case urlsplit url of
        Inl e \<Rightarrow> Inl e
      | Inr r \<Rightarrow>
          (if scheme r \<in> set uses_params \<and> CHR '';'' \<in> set (path r)
           then (let (url', params') = splitparams (path r)
                 in Inr (r\<lparr>path := url', params := params'\<rparr>))
           else Inr r))"

text \<open>The \<open>hostname\<close> property of a parse result: the part of the network location after
  the last \<open>@\<close>, without the port, lower-cased up to a \<open>%\<close>; \<open>None\<close> when it is empty.\<close>

definition hostname :: "parse_result \<Rightarrow> string option" where
  "hostname r =
     (let (_, _, hostinfo) = rpartition_on CHR ''@'' (netloc r);
          (_, have_open_br, bracketed) = partition_on CHR ''['' hostinfo;
          host = (if have_open_br then fst (partition_on CHR '']'' bracketed)
                  else fst (partition_on CHR '':'' hostinfo))
      in if host = [] then None
         else (let (h, percent, zone) = partition_on CHR ''%'' host
               in Some (lower h @ (if percent then ''%'' else []) @ zone)))"

text \<open>\<open>unquote_plus\<close>: \<open>+\<close> becomes a space, then every \<open>%XX\<close> with two hexadecimal
  digits becomes the byte \<open>XX\<close>; a \<open>%\<close> not followed by two hexadecimal digits stays.\<close>

definition hex_digit :: "char \<Rightarrow> nat option" where
  "hex_digit c =
     (let n = (of_char c :: nat)
      in if 48 \<le> n \<and> n \<le> 57 then Some (n - 48)
         else if 65 \<le> n \<and> n \<le> 70 then Some (n - 55)
         else if 97 \<le> n \<and> n \<le> 102 then Some (n - 87)
         else None)"

fun unquote :: "string \<Rightarrow> string" where
  "unquote (p # a # b # rest) =
     (if p = CHR ''%'' then
        (case (hex_digit a, hex_digit b) of
           (Some h, Some l) \<Rightarrow> char_of (16 * h + l) # unquote rest
         | _ \<Rightarrow> p # unquote (a # b # rest))
      else p # unquote (a # b # rest))"
| "unquote (x # xs) = x # unquote xs"
| "unquote [] = []"

definition unquote_plus :: "string \<Rightarrow> string" where
  "unquote_plus s = unquote (map (\<lambda>c. if c = CHR ''+'' then CHR '' '' else c) s)"

text \<open>\<open>parse_qsl(qs)\<close> with its defaults: fields are separated by \<open>&\<close>; an empty field
  and a field with a blank value (or no \<open>=\<close>) are dropped.\<close>

definition parse_qsl :: "string \<Rightarrow> (string \<times> string) list" where
  "parse_qsl qs =
     (if qs = [] then []
      else concat (map (\<lambda>name_value.
             (let (name, _, v) = partition_on CHR ''='' name_value
              in if name_value \<noteq> [] \<and> v \<noteq> [] then [(unquote_plus name, unquote_plus v)]
                 else []))
           (split_on CHR ''&'' qs)))"

text \<open>\<open>parse_qs(qs)\<close>: the dictionary from each name to the list of its values, in the
  order of the query.\<close>

definition parse_qs :: "string \<Rightarrow> (string \<rightharpoonup> string list)" where
  "parse_qs qs name =
     (case map snd (filter (\<lambda>nv. fst nv = name) (parse_qsl qs)) of
        [] \<Rightarrow> None
      | vs \<Rightarrow> Some vs)"

section \<open>The URL resolver: \<open>extract_video_id\<close>\<close>

text \<open>\<open>parse_qs(parsed.query)['v'][0]\<close>: a missing key raises \<open>KeyError\<close>.\<close>

definition first_v :: "string \<Rightarrow> py_exception + string" where
  "first_v q =
     (case parse_qs q ''v'' of
        None \<Rightarrow> Inl (KeyError ''v'')
      | Some vs \<Rightarrow> index vs 0)"

text \<open>\<open>extract_video_id(url)\<close> (lines 13 to 25). The result \<open>Inr None\<close> is Python's
  \<open>None\<close>, \<open>Inr (Some v)\<close> the identifier \<open>v\<close>, \<open>Inl e\<close> the exception \<open>e\<close> raised.\<close>

definition extract_video_id :: "string \<Rightarrow> py_exception + string option" where
  "extract_video_id url =
     (case urlparse url of
        Inl e \<Rightarrow> Inl e
      | Inr parsed \<Rightarrow>
          (if hostname parsed = Some ''youtu.be'' then Inr (Some (drop 1 (path parsed)))
           else if hostname parsed \<in> {Some ''www.youtube.com'', Some ''youtube.com''} then
             (if path parsed = ''/watch'' then
                (case first_v (query parsed) of
                   Inl e \<Rightarrow> Inl e
                 | Inr v \<Rightarrow> Inr (Some v))
              else if startswith (path parsed) ''/embed/'' then
                (case index (split_on CHR ''/'' (path parsed)) 2 of
                   Inl e \<Rightarrow> Inl e
                 | Inr v \<Rightarrow> Inr (Some v))
              else if startswith (path parsed) ''/v/'' then
                (case index (split_on CHR ''/'' (path parsed)) 2 of
                   Inl e \<Rightarrow> Inl e
                 | Inr v \<Rightarrow> Inr (Some v))
              else Inr None)
           else Inr None))"

section \<open>The transcript fetcher: \<open>get_transcript_text\<close>\<close>

text \<open>The values the transcript service can hand back: \<open>fetch()\<close> is expected to return a
  list of dictionaries with a \<open>text\<close> entry, and the code checks each of these
  expectations at run time.\<close>

datatype py_value =
    PyNone
  | PyBool bool
  | PyInt int
  | PyStr string
  | PyList "py_value list"
  | PyDict "(string \<times> py_value) list"

text \<open>Python's truth value of an object, as tested by \<open>if x\<close> and \<open>not x\<close>.\<close>

fun truthy :: "py_value \<Rightarrow> bool" where
  "truthy PyNone = False"
| "truthy (PyBool b) = b"
| "truthy (PyInt i) = (i \<noteq> 0)"
| "truthy (PyStr s) = (s \<noteq> [])"
| "truthy (PyList xs) = (xs \<noteq> [])"
| "truthy (PyDict d) = (d \<noteq> [])"

text \<open>The external transcript service (\<open>youtube_transcript_api\<close>): a transcript track
  with its \<open>fetch()\<close>, the track list of a video with its \<open>find_transcript(codes)\<close>, and
  \<open>YouTubeTranscriptApi.list_transcripts(video_id)\<close>. Each call returns or raises.\<close>

record transcript =
  fetch :: "py_exception + py_value"

record transcript_list =
  find_transcript :: "string list \<Rightarrow> py_exception + transcript"

type_synonym transcript_api = "string \<Rightarrow> py_exception + transcript_list"

text \<open>What the code shows through \<open>streamlit\<close>, in the order of the calls.\<close>

datatype notice =
    Title string
  | Markdown string
  | Image string string
  | Subheader string
  | Error string
  | Warning string

text \<open>The body of the loop over the entries (lines 63 and 64): \<open>Inr (Some s)\<close> when \<open>s\<close>
  is appended, \<open>Inr None\<close> when the test fails, \<open>Inl e\<close> when \<open>strip\<close> raises because the
  text is not a string.\<close>

definition entry_text :: "py_value \<Rightarrow> py_exception + string option" where
  "entry_text entry =
     (case entry of
        PyDict d \<Rightarrow>
          (case map_of d ''text'' of
             None \<Rightarrow> Inr None
           | Some v \<Rightarrow>
               (if truthy v then
                  (case v of
                     PyStr s \<Rightarrow> Inr (Some (strip s))
                   | _ \<Rightarrow> Inl (AttributeError ''strip''))
                else Inr None))
      | _ \<Rightarrow> Inr None)"

text \<open>The loop (lines 61 to 66): an entry whose body raises is skipped.\<close>

fun collect_text :: "py_value list \<Rightarrow> string list \<Rightarrow> string list" where
  "collect_text [] transcript_text = transcript_text"
| "collect_text (entry # rest) transcript_text =
     (case entry_text entry of
        Inr (Some s) \<Rightarrow> collect_text rest (transcript_text @ [s])
      | Inr None \<Rightarrow> collect_text rest transcript_text
      | Inl e \<Rightarrow> collect_text rest transcript_text)"

text \<open>Lines 36 to 44: the track of the wanted language, else the English one with a
  warning, else an error with the cause of the second failure.\<close>

definition select_transcript :: "transcript_list \<Rightarrow> string \<Rightarrow> transcript option \<times> notice list" where
  "select_transcript transcript_list language =
     (case find_transcript transcript_list [language] of
        Inr t \<Rightarrow> (Some t, [])
      | Inl e \<Rightarrow>
          (case find_transcript transcript_list [''en''] of
             Inr t \<Rightarrow>
               (Some t,
                [Warning ''Transcript not available in selected language. Using English instead.''])
           | Inl e' \<Rightarrow> (None, [Error (''Could not find transcript: '' @ exception_str e')])))"

text \<open>Lines 52 to 72: the checks of the fetched data, the loop and the join.\<close>

definition join_transcript_data :: "py_value \<Rightarrow> string option \<times> notice list" where
  "join_transcript_data transcript_data =
     (if \<not> truthy transcript_data then (None, [Error ''No transcript data received''])
      else
        (case transcript_data of
           PyList entries \<Rightarrow>
             (let transcript_text = collect_text entries []
              in if transcript_text = []
                 then (None, [Error ''No valid transcript text found in the video''])
                 else (Some (join '' '' transcript_text), []))
         | _ \<Rightarrow> (None, [Error ''Received invalid transcript data format''])))"

text \<open>\<open>get_transcript_text(youtube_url, language)\<close> (lines 27 to 76): the returned text
  (\<open>None\<close> for Python's \<open>None\<close>) and the notices shown. An exception of the resolver or of
  \<open>list_transcripts\<close> reaches the outermost handler (line 74).\<close>

definition get_transcript_text :: "transcript_api \<Rightarrow> string \<Rightarrow> string \<Rightarrow> string option \<times> notice list" where
  "get_transcript_text list_transcripts youtube_url language =
     (case extract_video_id youtube_url of
        Inl e \<Rightarrow> (None, [Error (''Error fetching transcript: '' @ exception_str e)])
      | Inr None \<Rightarrow> (None, [Error ''Invalid YouTube URL''])
      | Inr (Some video_id) \<Rightarrow>
          (if video_id = [] then (None, [Error ''Invalid YouTube URL''])
           else
             (case list_transcripts video_id of
                Inl e \<Rightarrow> (None, [Error (''Error fetching transcript: '' @ exception_str e)])
              | Inr transcript_list \<Rightarrow>
                  (case select_transcript transcript_list language of
                     (None, shown) \<Rightarrow> (None, shown)
                   | (Some t, shown) \<Rightarrow>
                       (case fetch t of
                          Inl e \<Rightarrow>
                            (None, shown @ [Error (''Failed to fetch transcript data: '' @ exception_str e)])
                        | Inr transcript_data \<Rightarrow>
                            (case join_transcript_data transcript_data of
                               (r, shown') \<Rightarrow> (r, shown @ shown')))))))"

section \<open>The summary generator\<close>

text \<open>The external generation service: the text of the response to a prompt, or the
  exception raised by the call.\<close>

type_synonym generation_service = "string \<Rightarrow> py_exception + string"

text \<open>\<open>generate_summary(transcript, prompt)\<close> (lines 78 to 87).\<close>

definition generate_summary :: "generation_service \<Rightarrow> string \<Rightarrow> string \<Rightarrow> string option \<times> notice list" where
  "generate_summary generate_content transcript prompt =
     (case generate_content (prompt @ transcript) of
        Inr text \<Rightarrow> (Some text, [])
      | Inl e \<Rightarrow> (None, [Error (''AI Generation Error: '' @ exception_str e)]))"

section \<open>The page\<close>

datatype summary_length = Short | Medium | Long

text \<open>The option of the slider as the string the script works with.\<close>

fun option_name :: "summary_length \<Rightarrow> string" where
  "option_name Short = ''Short''"
| "option_name Medium = ''Medium''"
| "option_name Long = ''Long''"

fun length_prompts :: "summary_length \<Rightarrow> string" where
  "length_prompts Short = ''Generate a brief summary (max 100 words)''"
| "length_prompts Medium = ''Generate a comprehensive summary (max 250 words)''"
| "length_prompts Long = ''Generate a detailed summary (max 500 words)''"

text \<open>The f-string of lines 103 to 110.\<close>

definition DEFAULT_PROMPT :: "summary_length \<Rightarrow> string" where
  "DEFAULT_PROMPT summary_length =
     ''You are a professional YouTube content analyzer. \<newline>'' @
     ''Generate a '' @ lower (option_name summary_length) @
     '' summary of this video transcript with these elements:\<newline>'' @
     ''1. Key topics covered\<newline>'' @
     ''2. Main points discussed\<newline>'' @
     ''3. Important conclusions\<newline>'' @
     ''4. Overall significance\<newline>'' @
     ''\<newline>'' @
     length_prompts summary_length @ ''. Present in clear, concise bullet points:\<newline>''"

text \<open>Lines 112 to 119: the thumbnail, shown when the resolver returns a non-empty
  identifier; an exception is swallowed.\<close>

definition thumbnail :: "string \<Rightarrow> notice list" where
  "thumbnail youtube_url =
     (if youtube_url = [] then []
      else
        (case extract_video_id youtube_url of
           Inr (Some video_id) \<Rightarrow>
             (if video_id = [] then []
              else [Image (''https://img.youtube.com/vi/'' @ video_id @ ''/0.jpg'') ''Video Thumbnail''])
         | _ \<Rightarrow> []))"

text \<open>Lines 121 to 135: the handler of the button. The call of line 124 passes no
  language, so the default \<open>'en'\<close> of the parameter applies; the selected \<open>language\<close> is
  not read.\<close>

definition generate_summary_clicked ::
    "transcript_api \<Rightarrow> generation_service \<Rightarrow> string \<Rightarrow> string \<Rightarrow> summary_length \<Rightarrow> notice list" where
  "generate_summary_clicked list_transcripts generate_content youtube_url language summary_length =
     (if youtube_url = [] then [Warning ''Please enter a YouTube URL first'']
      else
        (case get_transcript_text list_transcripts youtube_url ''en'' of
           (None, shown) \<Rightarrow> shown @ [Error ''Could not retrieve transcript'']
         | (Some transcript, shown) \<Rightarrow>
             (if transcript = [] then shown @ [Error ''Could not retrieve transcript'']
              else
                (case generate_summary generate_content transcript (DEFAULT_PROMPT summary_length) of
                   (None, shown') \<Rightarrow> shown @ shown' @ [Error ''Failed to generate summary'']
                 | (Some summary, shown') \<Rightarrow>
                     (if summary = [] then shown @ shown' @ [Error ''Failed to generate summary'']
                      else shown @ shown' @ [Subheader ''Video Summary'', Markdown summary])))))"

text \<open>One run of the script (lines 89 to 135) on the values of its three inputs and
  with the button pressed or not.\<close>

definition page ::
    "transcript_api \<Rightarrow> generation_service \<Rightarrow> string \<Rightarrow> string \<Rightarrow> summary_length \<Rightarrow> bool \<Rightarrow> notice list" where
  "page list_transcripts generate_content youtube_url language summary_length clicked =
     [Title ''YouTube Video Summarizer'',
      Markdown ''Enter a YouTube URL to get AI-generated summary'']
     @ thumbnail youtube_url
     @ (if clicked
        then generate_summary_clicked list_transcripts generate_content youtube_url language summary_length
        else [])"

section \<open>The document as the specification words it\<close>

text \<open>
  Section 4.2 of the specification, steps 5 and 7: an entry is kept when it is a
  structured record containing a non-empty text field; the kept texts are trimmed each
  and joined with a single space, in the order of the sequence. These definitions
  follow the specification; they are compared with \<open>collect_text\<close> and \<open>join\<close> below.
\<close>

definition spec_kept_entry :: "py_value \<Rightarrow> bool" where
  "spec_kept_entry entry =
     (case entry of
        PyDict d \<Rightarrow>
          (case map_of d ''text'' of
             Some (PyStr s) \<Rightarrow> s \<noteq> []
           | _ \<Rightarrow> False)
      | _ \<Rightarrow> False)"

definition spec_text_field :: "py_value \<Rightarrow> string" where
  "spec_text_field entry =
     (case entry of
        PyDict d \<Rightarrow>
          (case map_of d ''text'' of
             Some (PyStr s) \<Rightarrow> s
           | _ \<Rightarrow> [])
      | _ \<Rightarrow> [])"

definition spec_transcript_document :: "py_value list \<Rightarrow> string" where
  "spec_transcript_document entries =
     join '' '' (map (\<lambda>entry. strip (spec_text_field entry)) (filter spec_kept_entry entries))"

section \<open>A transcript service for the examples\<close>

text \<open>The track list of a video that has the given tracks, by language code:
  \<open>find_transcript\<close> returns the track of the first requested code that has one and
  raises otherwise, naming the requested codes.\<close>

definition track_list :: "(string \<times> transcript) list \<Rightarrow> transcript_list" where
  "track_list tracks =
     \<lparr>find_transcript = (\<lambda>codes.
        (case List.find (\<lambda>code. map_of tracks code \<noteq> None) codes of
           None \<Rightarrow> Inl (ServiceError (''No transcripts were found for: '' @ join '', '' codes))
         | Some code \<Rightarrow>
             (case map_of tracks code of
                None \<Rightarrow> Inl (ServiceError (''No transcripts were found for: '' @ join '', '' codes))
              | Some t \<Rightarrow> Inr t)))\<rparr>"

section \<open>The directive\<close>

lemma DEFAULT_PROMPT_split:
  "DEFAULT_PROMPT l =
     (''You are a professional YouTube content analyzer. \<newline>'' @
      ''Generate a '' @ lower (option_name l) @
      '' summary of this video transcript with these elements:\<newline>'' @
      ''1. Key topics covered\<newline>'' @
      ''2. Main points discussed\<newline>'' @
      ''3. Important conclusions\<newline>'' @
      ''4. Overall significance\<newline>'' @
      ''\<newline>'') @ length_prompts l @ ''. Present in clear, concise bullet points:\<newline>''"
  by (simp add: DEFAULT_PROMPT_def)

lemma sublist_in_middle:
  assumes "sublist xs ys"
  shows "sublist xs (ps @ ys @ ss)"
proof -
  from assms obtain a b where "ys = a @ xs @ b"
    by (auto simp: sublist_def)
  then have "ps @ ys @ ss = (ps @ a) @ xs @ (b @ ss)"
    by simp
  then show ?thesis
    unfolding sublist_def by blast
qed

lemma length_prompts_phrase:
  "sublist ''max 100 words'' (length_prompts Short)"
  "sublist ''max 250 words'' (length_prompts Medium)"
  "sublist ''max 500 words'' (length_prompts Long)"
proof -
  have "length_prompts Short = ''Generate a brief summary ('' @ ''max 100 words'' @ '')''"
    by simp
  then show "sublist ''max 100 words'' (length_prompts Short)"
    unfolding sublist_def by blast
  have "length_prompts Medium = ''Generate a comprehensive summary ('' @ ''max 250 words'' @ '')''"
    by simp
  then show "sublist ''max 250 words'' (length_prompts Medium)"
    unfolding sublist_def by blast
  have "length_prompts Long = ''Generate a detailed summary ('' @ ''max 500 words'' @ '')''"
    by simp
  then show "sublist ''max 500 words'' (length_prompts Long)"
    unfolding sublist_def by blast
qed

text \<open>
  Claim C8. The directive composed for \<open>Short\<close> contains the phrase \<open>max 100 words\<close> as a
  contiguous piece of text, the one for \<open>Medium\<close> contains \<open>max 250 words\<close>, and the one
  for \<open>Long\<close> contains \<open>max 500 words\<close>.
\<close>

theorem directive_contains_word_limit:
  "sublist ''max 100 words'' (DEFAULT_PROMPT Short)
   \<and> sublist ''max 250 words'' (DEFAULT_PROMPT Medium)
   \<and> sublist ''max 500 words'' (DEFAULT_PROMPT Long)"
  unfolding DEFAULT_PROMPT_split
  by (intro conjI sublist_in_middle length_prompts_phrase)

section \<open>The resolver\<close>

lemma split_on_nonempty: "split_on c s \<noteq> []"
  by (induction s) (auto split: list.splits)

lemma hd_split_on: "hd (split_on c s) = takeWhile (\<lambda>x. x \<noteq> c) s"
  by (induction s) (auto split: list.splits simp: split_on_nonempty)

lemma startswith_iff: "startswith s p \<longleftrightarrow> (\<exists>rest. s = p @ rest)"
  unfolding startswith_def
  by (metis append_eq_conv_conj append_take_drop_id)

text \<open>The path segment after the marker: \<open>split('/')[2]\<close> never raises once the path starts
  with \<open>/embed/\<close> or \<open>/v/\<close>, and it is the text up to the next slash.\<close>

lemma index_after_embed:
  "index (split_on CHR ''/'' (''/embed/'' @ rest)) 2 = Inr (takeWhile (\<lambda>x. x \<noteq> CHR ''/'') rest)"
proof -
  obtain y ys where s: "split_on CHR ''/'' rest = y # ys"
    using split_on_nonempty [of "CHR ''/''" rest] by (cases "split_on CHR ''/'' rest") auto
  then have "y = takeWhile (\<lambda>x. x \<noteq> CHR ''/'') rest"
    using hd_split_on [of "CHR ''/''" rest] by simp
  with s show ?thesis
    by (simp add: index_def)
qed

lemma index_after_v:
  "index (split_on CHR ''/'' (''/v/'' @ rest)) 2 = Inr (takeWhile (\<lambda>x. x \<noteq> CHR ''/'') rest)"
proof -
  obtain y ys where s: "split_on CHR ''/'' rest = y # ys"
    using split_on_nonempty [of "CHR ''/''" rest] by (cases "split_on CHR ''/'' rest") auto
  then have "y = takeWhile (\<lambda>x. x \<noteq> CHR ''/'') rest"
    using hd_split_on [of "CHR ''/''" rest] by simp
  with s show ?thesis
    by (simp add: index_def)
qed

lemma index_segment_embed:
  assumes "startswith p ''/embed/''"
  shows "index (split_on CHR ''/'' p) 2 = Inr (takeWhile (\<lambda>x. x \<noteq> CHR ''/'') (drop 7 p))"
proof -
  from assms obtain rest where p: "p = ''/embed/'' @ rest"
    by (auto simp: startswith_iff)
  show ?thesis
    unfolding p using index_after_embed [of rest] by simp
qed

lemma index_segment_v:
  assumes "startswith p ''/v/''"
  shows "index (split_on CHR ''/'' p) 2 = Inr (takeWhile (\<lambda>x. x \<noteq> CHR ''/'') (drop 3 p))"
proof -
  from assms obtain rest where p: "p = ''/v/'' @ rest"
    by (auto simp: startswith_iff)
  show ?thesis
    unfolding p using index_after_v [of rest] by simp
qed

text \<open>The values of \<open>parse_qs\<close>: every name it has maps to a non-empty list of non-empty
  strings, since blank values are dropped.\<close>

lemma unquote_empty_iff: "unquote s = [] \<longleftrightarrow> s = []"
  by (induction s rule: unquote.induct) (auto split: option.splits)

lemma unquote_plus_empty_iff: "unquote_plus s = [] \<longleftrightarrow> s = []"
  by (simp add: unquote_plus_def unquote_empty_iff)

lemma parse_qsl_values: "(n, v) \<in> set (parse_qsl qs) \<Longrightarrow> v \<noteq> []"
  by (auto simp: parse_qsl_def partition_on_def unquote_plus_empty_iff split: if_splits)

lemma parse_qs_Some:
  "parse_qs qs name = Some vs \<longleftrightarrow>
     vs \<noteq> [] \<and> vs = map snd (filter (\<lambda>nv. fst nv = name) (parse_qsl qs))"
  unfolding parse_qs_def
  by (cases "map snd (filter (\<lambda>nv. fst nv = name) (parse_qsl qs))") auto

lemma parse_qs_values:
  assumes "parse_qs qs name = Some vs"
  shows "vs \<noteq> [] \<and> [] \<notin> set vs"
proof
  from assms show "vs \<noteq> []"
    using parse_qs_Some [of qs name vs] by blast
  show "[] \<notin> set vs"
  proof
    assume "[] \<in> set vs"
    moreover from assms have "vs = map snd (filter (\<lambda>nv. fst nv = name) (parse_qsl qs))"
      using parse_qs_Some [of qs name vs] by blast
    ultimately obtain n where "(n, []) \<in> set (parse_qsl qs)"
      by auto
    then show False
      using parse_qsl_values by blast
  qed
qed

text \<open>The resolver on a URL that \<open>urlparse\<close> accepts, with the list operations carried
  out.\<close>

lemma extract_video_id_parsed:
  assumes "urlparse url = Inr parsed"
  shows "extract_video_id url =
     (if hostname parsed = Some ''youtu.be'' then Inr (Some (drop 1 (path parsed)))
      else if hostname parsed \<in> {Some ''www.youtube.com'', Some ''youtube.com''} then
        (if path parsed = ''/watch'' then
           (case parse_qs (query parsed) ''v'' of
              None \<Rightarrow> Inl (KeyError ''v'')
            | Some vs \<Rightarrow> Inr (Some (hd vs)))
         else if startswith (path parsed) ''/embed/'' then
           Inr (Some (takeWhile (\<lambda>x. x \<noteq> CHR ''/'') (drop 7 (path parsed))))
         else if startswith (path parsed) ''/v/'' then
           Inr (Some (takeWhile (\<lambda>x. x \<noteq> CHR ''/'') (drop 3 (path parsed))))
         else Inr None)
      else Inr None)"
proof -
  have watch: "(case first_v q of Inl e \<Rightarrow> Inl e | Inr v \<Rightarrow> Inr (Some v))
      = (case parse_qs q ''v'' of None \<Rightarrow> Inl (KeyError ''v'') | Some vs \<Rightarrow> Inr (Some (hd vs)))"
    for q
    using parse_qs_values [of q "''v''"]
    by (cases "parse_qs q ''v''") (auto simp: first_v_def index_def neq_Nil_conv)
  show ?thesis
    unfolding extract_video_id_def assms
    by (simp add: watch index_segment_embed index_segment_v del: insert_iff)
qed

text \<open>Both callers catch what the resolver raises: \<open>get_transcript_text\<close> reports it and
  returns no text, the thumbnail code shows nothing.\<close>

lemma get_transcript_text_resolver_raises:
  "extract_video_id url = Inl e \<Longrightarrow>
     get_transcript_text list_transcripts url language
       = (None, [Error (''Error fetching transcript: '' @ exception_str e)])"
  by (simp add: get_transcript_text_def)

lemma thumbnail_resolver_raises:
  "extract_video_id url = Inl e \<Longrightarrow> thumbnail url = []"
  by (simp add: thumbnail_def)

text \<open>
  Claim C2, as the code has it. The resolver is not free of exceptions: it returns an
  identifier, returns \<open>None\<close>, or raises. It raises \<open>KeyError('v')\<close> exactly when the URL
  parses to a primary-host URL with path \<open>/watch\<close> whose query has no \<open>v\<close> parameter with
  a value; apart from that it raises only what \<open>urlparse\<close> itself raises on the URL.
\<close>

theorem extract_video_id_raises_iff:
  "extract_video_id url = Inl e \<longleftrightarrow>
     (urlparse url = Inl e
      \<or> (\<exists>parsed. urlparse url = Inr parsed
            \<and> hostname parsed \<in> {Some ''www.youtube.com'', Some ''youtube.com''}
            \<and> path parsed = ''/watch''
            \<and> parse_qs (query parsed) ''v'' = None
            \<and> e = KeyError ''v''))"
proof (cases "urlparse url")
  case (Inl e')
  then show ?thesis
    by (auto simp: extract_video_id_def)
next
  case (Inr parsed)
  then show ?thesis
    by (auto simp: extract_video_id_parsed [OF Inr] split: option.splits)
qed

text \<open>Claim C2 as stated fails: on a primary-host URL with path \<open>/watch\<close> and no query the
  resolver raises \<open>KeyError\<close>.\<close>

theorem watch_without_v_raises:
  "extract_video_id ''https://www.youtube.com/watch'' = Inl (KeyError ''v'')"
  by code_simp

text \<open>
  Claim C3, as the code has it. On a URL that \<open>urlparse\<close> accepts, with \<open>parsed\<close> its
  result:
  for the short-link host the identifier is the path without its first character;
  for a primary host and path \<open>/watch\<close> with a \<open>v\<close> parameter, the list of its values is
  non-empty and the identifier is the first value;
  for a primary host and a path \<open>/embed/<id>\<close> or \<open>/v/<id>\<close> it is the segment after the
  marker, up to the next slash;
  for any other host, and for a primary host with any other path, the result is \<open>None\<close>.
  These cases leave out one shape, which gives neither an identifier nor \<open>None\<close>: for a
  primary host and path \<open>/watch\<close> without a \<open>v\<close> parameter that has a value, the resolver
  raises \<open>KeyError('v')\<close>. A URL that \<open>urlparse\<close> rejects raises the exception of
  \<open>urlparse\<close>.
\<close>

theorem extract_video_id_by_shape:
  "(\<forall>e. urlparse url = Inl e \<longrightarrow> extract_video_id url = Inl e)
   \<and> (\<forall>parsed. urlparse url = Inr parsed \<longrightarrow>
        (hostname parsed = Some ''youtu.be'' \<longrightarrow>
           extract_video_id url = Inr (Some (drop 1 (path parsed))))
        \<and> (\<forall>vs. hostname parsed \<in> {Some ''www.youtube.com'', Some ''youtube.com''}
              \<and> path parsed = ''/watch'' \<and> parse_qs (query parsed) ''v'' = Some vs \<longrightarrow>
           vs \<noteq> [] \<and> extract_video_id url = Inr (Some (hd vs)))
        \<and> (hostname parsed \<in> {Some ''www.youtube.com'', Some ''youtube.com''}
              \<and> path parsed = ''/watch'' \<and> parse_qs (query parsed) ''v'' = None \<longrightarrow>
           extract_video_id url = Inl (KeyError ''v''))
        \<and> (\<forall>rest. hostname parsed \<in> {Some ''www.youtube.com'', Some ''youtube.com''}
              \<and> (path parsed = ''/embed/'' @ rest \<or> path parsed = ''/v/'' @ rest) \<longrightarrow>
           extract_video_id url = Inr (Some (takeWhile (\<lambda>c. c \<noteq> CHR ''/'') rest)))
        \<and> (hostname parsed \<notin> {Some ''youtu.be'', Some ''www.youtube.com'', Some ''youtube.com''} \<longrightarrow>
           extract_video_id url = Inr None)
        \<and> (hostname parsed \<in> {Some ''www.youtube.com'', Some ''youtube.com''}
              \<and> path parsed \<noteq> ''/watch'' \<and> \<not> startswith (path parsed) ''/embed/''
              \<and> \<not> startswith (path parsed) ''/v/'' \<longrightarrow>
           extract_video_id url = Inr None))"
proof
  show "\<forall>e. urlparse url = Inl e \<longrightarrow> extract_video_id url = Inl e"
    by (simp add: extract_video_id_def)
  show "\<forall>parsed. urlparse url = Inr parsed \<longrightarrow>
        (hostname parsed = Some ''youtu.be'' \<longrightarrow>
           extract_video_id url = Inr (Some (drop 1 (path parsed))))
        \<and> (\<forall>vs. hostname parsed \<in> {Some ''www.youtube.com'', Some ''youtube.com''}
              \<and> path parsed = ''/watch'' \<and> parse_qs (query parsed) ''v'' = Some vs \<longrightarrow>
           vs \<noteq> [] \<and> extract_video_id url = Inr (Some (hd vs)))
        \<and> (hostname parsed \<in> {Some ''www.youtube.com'', Some ''youtube.com''}
              \<and> path parsed = ''/watch'' \<and> parse_qs (query parsed) ''v'' = None \<longrightarrow>
           extract_video_id url = Inl (KeyError ''v''))
        \<and> (\<forall>rest. hostname parsed \<in> {Some ''www.youtube.com'', Some ''youtube.com''}
              \<and> (path parsed = ''/embed/'' @ rest \<or> path parsed = ''/v/'' @ rest) \<longrightarrow>
           extract_video_id url = Inr (Some (takeWhile (\<lambda>c. c \<noteq> CHR ''/'') rest)))
        \<and> (hostname parsed \<notin> {Some ''youtu.be'', Some ''www.youtube.com'', Some ''youtube.com''} \<longrightarrow>
           extract_video_id url = Inr None)
        \<and> (hostname parsed \<in> {Some ''www.youtube.com'', Some ''youtube.com''}
              \<and> path parsed \<noteq> ''/watch'' \<and> \<not> startswith (path parsed) ''/embed/''
              \<and> \<not> startswith (path parsed) ''/v/'' \<longrightarrow>
           extract_video_id url = Inr None)"
  proof (intro allI impI)
    fix parsed
    assume p: "urlparse url = Inr parsed"
    have nonempty: "parse_qs (query parsed) ''v'' = Some vs \<Longrightarrow> vs \<noteq> []" for vs
      using parse_qs_values [of "query parsed" "''v''" vs] by simp
    show "(hostname parsed = Some ''youtu.be'' \<longrightarrow>
           extract_video_id url = Inr (Some (drop 1 (path parsed))))
        \<and> (\<forall>vs. hostname parsed \<in> {Some ''www.youtube.com'', Some ''youtube.com''}
              \<and> path parsed = ''/watch'' \<and> parse_qs (query parsed) ''v'' = Some vs \<longrightarrow>
           vs \<noteq> [] \<and> extract_video_id url = Inr (Some (hd vs)))
        \<and> (hostname parsed \<in> {Some ''www.youtube.com'', Some ''youtube.com''}
              \<and> path parsed = ''/watch'' \<and> parse_qs (query parsed) ''v'' = None \<longrightarrow>
           extract_video_id url = Inl (KeyError ''v''))
        \<and> (\<forall>rest. hostname parsed \<in> {Some ''www.youtube.com'', Some ''youtube.com''}
              \<and> (path parsed = ''/embed/'' @ rest \<or> path parsed = ''/v/'' @ rest) \<longrightarrow>
           extract_video_id url = Inr (Some (takeWhile (\<lambda>c. c \<noteq> CHR ''/'') rest)))
        \<and> (hostname parsed \<notin> {Some ''youtu.be'', Some ''www.youtube.com'', Some ''youtube.com''} \<longrightarrow>
           extract_video_id url = Inr None)
        \<and> (hostname parsed \<in> {Some ''www.youtube.com'', Some ''youtube.com''}
              \<and> path parsed \<noteq> ''/watch'' \<and> \<not> startswith (path parsed) ''/embed/''
              \<and> \<not> startswith (path parsed) ''/v/'' \<longrightarrow>
           extract_video_id url = Inr None)"
      unfolding extract_video_id_parsed [OF p]
      by (auto simp: startswith_def dest: nonempty)
  qed
qed

theorem extract_video_id_by_shape_witness:
  "extract_video_id ''https://youtu.be/xyz789'' = Inr (Some ''xyz789'')
   \<and> extract_video_id ''https://www.youtube.com/watch?v=abc123'' = Inr (Some ''abc123'')
   \<and> extract_video_id ''https://www.youtube.com/embed/abc123'' = Inr (Some ''abc123'')
   \<and> extract_video_id ''https://youtube.com/v/abc123?t=5'' = Inr (Some ''abc123'')
   \<and> extract_video_id ''https://example.com/foo'' = Inr None
   \<and> extract_video_id ''https://www.youtube.com/shorts/abc123'' = Inr None
   \<and> extract_video_id ''https://www.youtube.com/watch?v='' = Inl (KeyError ''v'')
   \<and> extract_video_id ''https://[example.com/foo'' = Inl (ValueError ''Invalid IPv6 URL'')"
proof -
  let ?p1 = "\<lparr>scheme = ''https'', netloc = ''youtu.be'', path = ''/xyz789'', params = [],
              query = [], fragment = []\<rparr>"
  have p1: "urlparse ''https://youtu.be/xyz789'' = Inr ?p1"
    by code_simp
  have h1: "hostname ?p1 = Some ''youtu.be''"
    by code_simp
  from extract_video_id_by_shape [of "''https://youtu.be/xyz789''"] p1 h1
  have r1: "extract_video_id ''https://youtu.be/xyz789'' = Inr (Some ''xyz789'')"
    by simp
  let ?p2 = "\<lparr>scheme = ''https'', netloc = ''www.youtube.com'', path = ''/watch'', params = [],
              query = ''v=abc123'', fragment = []\<rparr>"
  have p2: "urlparse ''https://www.youtube.com/watch?v=abc123'' = Inr ?p2"
    by code_simp
  have h2: "hostname ?p2 = Some ''www.youtube.com''"
    by code_simp
  have q2: "parse_qs ''v=abc123'' ''v'' = Some [''abc123'']"
    by code_simp
  from extract_video_id_by_shape [of "''https://www.youtube.com/watch?v=abc123''"] p2 h2 q2
  have r2: "extract_video_id ''https://www.youtube.com/watch?v=abc123'' = Inr (Some ''abc123'')"
    by simp
  let ?p3 = "\<lparr>scheme = ''https'', netloc = ''www.youtube.com'', path = ''/embed/abc123'',
              params = [], query = [], fragment = []\<rparr>"
  have p3: "urlparse ''https://www.youtube.com/embed/abc123'' = Inr ?p3"
    by code_simp
  have h3: "hostname ?p3 = Some ''www.youtube.com''"
    by code_simp
  have s3: "path ?p3 = ''/embed/'' @ ''abc123''"
    by simp
  from extract_video_id_by_shape [of "''https://www.youtube.com/embed/abc123''"] p3 h3 s3
  have "extract_video_id ''https://www.youtube.com/embed/abc123''
          = Inr (Some (takeWhile (\<lambda>c. c \<noteq> CHR ''/'') ''abc123''))"
    by blast
  then have r3: "extract_video_id ''https://www.youtube.com/embed/abc123'' = Inr (Some ''abc123'')"
    by simp
  let ?p4 = "\<lparr>scheme = ''https'', netloc = ''youtube.com'', path = ''/v/abc123'',
              params = [], query = ''t=5'', fragment = []\<rparr>"
  have p4: "urlparse ''https://youtube.com/v/abc123?t=5'' = Inr ?p4"
    by code_simp
  have h4: "hostname ?p4 = Some ''youtube.com''"
    by code_simp
  have s4: "path ?p4 = ''/v/'' @ ''abc123''"
    by simp
  from extract_video_id_by_shape [of "''https://youtube.com/v/abc123?t=5''"] p4 h4 s4
  have "extract_video_id ''https://youtube.com/v/abc123?t=5''
          = Inr (Some (takeWhile (\<lambda>c. c \<noteq> CHR ''/'') ''abc123''))"
    by blast
  then have r4: "extract_video_id ''https://youtube.com/v/abc123?t=5'' = Inr (Some ''abc123'')"
    by simp
  let ?p5 = "\<lparr>scheme = ''https'', netloc = ''example.com'', path = ''/foo'',
              params = [], query = [], fragment = []\<rparr>"
  have p5: "urlparse ''https://example.com/foo'' = Inr ?p5"
    by code_simp
  have h5: "hostname ?p5 = Some ''example.com''"
    by code_simp
  from extract_video_id_by_shape [of "''https://example.com/foo''"] p5 h5
  have r5: "extract_video_id ''https://example.com/foo'' = Inr None"
    by simp
  let ?p6 = "\<lparr>scheme = ''https'', netloc = ''www.youtube.com'', path = ''/shorts/abc123'',
              params = [], query = [], fragment = []\<rparr>"
  have p6: "urlparse ''https://www.youtube.com/shorts/abc123'' = Inr ?p6"
    by code_simp
  have h6: "hostname ?p6 = Some ''www.youtube.com''"
    by code_simp
  have s6: "path ?p6 \<noteq> ''/watch'' \<and> \<not> startswith (path ?p6) ''/embed/''
            \<and> \<not> startswith (path ?p6) ''/v/''"
    by code_simp
  from extract_video_id_by_shape [of "''https://www.youtube.com/shorts/abc123''"] p6 h6 s6
  have r6: "extract_video_id ''https://www.youtube.com/shorts/abc123'' = Inr None"
    by simp
  let ?p7 = "\<lparr>scheme = ''https'', netloc = ''www.youtube.com'', path = ''/watch'', params = [],
              query = ''v='', fragment = []\<rparr>"
  have p7: "urlparse ''https://www.youtube.com/watch?v='' = Inr ?p7"
    by code_simp
  have h7: "hostname ?p7 = Some ''www.youtube.com''"
    by code_simp
  have q7: "parse_qs ''v='' ''v'' = None"
    by code_simp
  from extract_video_id_by_shape [of "''https://www.youtube.com/watch?v=''"] p7 h7 q7
  have r7: "extract_video_id ''https://www.youtube.com/watch?v='' = Inl (KeyError ''v'')"
    by simp
  have p8: "urlparse ''https://[example.com/foo'' = Inl (ValueError ''Invalid IPv6 URL'')"
    by code_simp
  from extract_video_id_by_shape [of "''https://[example.com/foo''"] p8
  have r8: "extract_video_id ''https://[example.com/foo'' = Inl (ValueError ''Invalid IPv6 URL'')"
    by simp
  from r1 r2 r3 r4 r5 r6 r7 r8 show ?thesis
    by blast
qed

text \<open>Claim C3 as stated fails: a primary-host URL with path \<open>/watch\<close> and a query without
  \<open>v\<close> gets neither the identifier of an accepted shape nor \<open>None\<close>; the resolver raises.\<close>

theorem watch_with_other_parameter_raises:
  "extract_video_id ''https://www.youtube.com/watch?list=PL123'' = Inl (KeyError ''v'')"
  by code_simp

text \<open>
  Claim C4, as the code has it. The resolver can return the empty string as an
  identifier: it does so exactly for a short-link URL whose path is empty or a single
  character, and for a primary-host URL whose path has nothing, or a slash, right after
  \<open>/embed/\<close> or \<open>/v/\<close>. Its callers treat the empty identifier like \<open>None\<close>:
  \<open>get_transcript_text\<close> reports an invalid URL whatever the transcript service is, and
  no thumbnail is shown. So an identifier that is used past the resolver is non-empty.
\<close>

theorem empty_identifier_rejected_by_callers:
  "(extract_video_id url = Inr (Some []) \<longleftrightarrow>
      (\<exists>parsed. urlparse url = Inr parsed
         \<and> (hostname parsed = Some ''youtu.be'' \<and> length (path parsed) \<le> 1
            \<or> hostname parsed \<in> {Some ''www.youtube.com'', Some ''youtube.com''}
              \<and> (\<exists>rest. (path parsed = ''/embed/'' @ rest \<or> path parsed = ''/v/'' @ rest)
                    \<and> (rest = [] \<or> hd rest = CHR ''/'')))))
   \<and> (extract_video_id url = Inr (Some []) \<longrightarrow>
        thumbnail url = []
        \<and> (\<forall>list_transcripts language.
              get_transcript_text list_transcripts url language
                = (None, [Error ''Invalid YouTube URL''])))"
proof
  show "extract_video_id url = Inr (Some []) \<longleftrightarrow>
      (\<exists>parsed. urlparse url = Inr parsed
         \<and> (hostname parsed = Some ''youtu.be'' \<and> length (path parsed) \<le> 1
            \<or> hostname parsed \<in> {Some ''www.youtube.com'', Some ''youtube.com''}
              \<and> (\<exists>rest. (path parsed = ''/embed/'' @ rest \<or> path parsed = ''/v/'' @ rest)
                    \<and> (rest = [] \<or> hd rest = CHR ''/''))))"
  proof (cases "urlparse url")
    case (Inl e')
    then show ?thesis
      by (auto simp: extract_video_id_def)
  next
    case (Inr parsed)
    have tw: "takeWhile (\<lambda>x. x \<noteq> CHR ''/'') r = [] \<longleftrightarrow> r = [] \<or> hd r = CHR ''/''" for r
      by (cases r) auto
    have nv: "parse_qs (query parsed) ''v'' = Some vs \<Longrightarrow> hd vs \<noteq> []" for vs
      using parse_qs_values [of "query parsed" "''v''" vs] by (cases vs) auto
    show ?thesis
      unfolding extract_video_id_parsed [OF Inr] Inr
      by (auto simp: startswith_iff tw dest: nv split: option.splits)
  qed
  show "extract_video_id url = Inr (Some []) \<longrightarrow>
        thumbnail url = []
        \<and> (\<forall>list_transcripts language.
              get_transcript_text list_transcripts url language
                = (None, [Error ''Invalid YouTube URL'']))"
    by (simp add: get_transcript_text_def thumbnail_def)
qed

theorem empty_identifier_rejected_by_callers_witness:
  "extract_video_id ''https://www.youtube.com/embed/'' = Inr (Some [])
   \<and> thumbnail ''https://www.youtube.com/embed/'' = []
   \<and> get_transcript_text (\<lambda>video_id. Inr (track_list [])) ''https://www.youtube.com/embed/'' ''en''
       = (None, [Error ''Invalid YouTube URL''])"
proof -
  have r: "extract_video_id ''https://www.youtube.com/embed/'' = Inr (Some [])"
    by code_simp
  with empty_identifier_rejected_by_callers [of "''https://www.youtube.com/embed/''"]
  show ?thesis
    by blast
qed

text \<open>Claim C4 as stated fails: for the short-link URL with path \<open>/\<close> the resolver
  returns an identifier, and it is the empty string.\<close>

theorem short_link_root_gives_empty_identifier:
  "extract_video_id ''https://youtu.be/'' = Inr (Some [])"
  by code_simp

section \<open>The transcript document\<close>

text \<open>The loop against the specification's wording: an entry contributes exactly when
  it is a kept entry, and then its trimmed text.\<close>

lemma entry_text_spec:
  "entry_text e = Inr (Some s) \<longleftrightarrow> spec_kept_entry e \<and> s = strip (spec_text_field e)"
  by (auto simp: entry_text_def spec_kept_entry_def spec_text_field_def
      split: py_value.splits option.splits)

lemma entry_text_kept:
  "spec_kept_entry e \<Longrightarrow> entry_text e = Inr (Some (strip (spec_text_field e)))"
  by (simp add: entry_text_spec)

lemma collect_text_spec:
  "collect_text entries acc
     = acc @ map (\<lambda>e. strip (spec_text_field e)) (filter spec_kept_entry entries)"
proof (induction entries arbitrary: acc)
  case Nil
  show ?case by simp
next
  case (Cons e entries)
  show ?case
  proof (cases "spec_kept_entry e")
    case True
    then show ?thesis
      by (simp add: entry_text_kept Cons.IH)
  next
    case False
    then have "\<And>s. entry_text e \<noteq> Inr (Some s)"
      by (simp add: entry_text_spec)
    with False show ?thesis
      by (simp add: Cons.IH split: sum.splits option.splits)
  qed
qed

lemma join_transcript_data_list:
  "join_transcript_data (PyList entries) =
     (if entries = [] then (None, [Error ''No transcript data received''])
      else if filter spec_kept_entry entries = []
      then (None, [Error ''No valid transcript text found in the video''])
      else (Some (spec_transcript_document entries), []))"
  by (simp add: join_transcript_data_def collect_text_spec spec_transcript_document_def Let_def)

text \<open>
  Claim C5. When a track has been selected and its fetch returns a sequence of entries
  of which at least one is kept, the text returned is the document of the
  specification: the kept entries (structured, with a non-empty text), each text
  trimmed, joined with single spaces in the order of the sequence. In particular the
  entries with the texts \<open>" Hello "\<close>, \<open>""\<close>, \<open>"world"\<close> give \<open>"Hello world"\<close>.
\<close>

theorem transcript_document_from_kept_entries:
  assumes "extract_video_id url = Inr (Some video_id)" and "video_id \<noteq> []"
    and "list_transcripts video_id = Inr tlist"
    and "select_transcript tlist language = (Some t, shown)"
    and "fetch t = Inr (PyList entries)"
    and "filter spec_kept_entry entries \<noteq> []"
  shows "get_transcript_text list_transcripts url language =
           (Some (spec_transcript_document entries), shown)
         \<and> spec_transcript_document
             [PyDict [(''text'', PyStr '' Hello '')], PyDict [(''text'', PyStr [])],
              PyDict [(''text'', PyStr ''world'')]] = ''Hello world''"
proof
  from assms(6) have "entries \<noteq> []" by auto
  with assms show "get_transcript_text list_transcripts url language =
           (Some (spec_transcript_document entries), shown)"
    by (simp add: get_transcript_text_def join_transcript_data_list)
  show "spec_transcript_document
             [PyDict [(''text'', PyStr '' Hello '')], PyDict [(''text'', PyStr [])],
              PyDict [(''text'', PyStr ''world'')]] = ''Hello world''"
    by code_simp
qed

theorem transcript_document_from_kept_entries_witness:
  "get_transcript_text
     (\<lambda>video_id. Inr (track_list [(''en'',
        \<lparr>fetch = Inr (PyList [PyDict [(''text'', PyStr '' Hello '')], PyDict [(''text'', PyStr [])],
                               PyDict [(''text'', PyStr ''world'')]])\<rparr>)]))
     ''https://www.youtube.com/watch?v=abc123'' ''en''
   = (Some ''Hello world'', [])"
proof -
  let ?entries = "[PyDict [(''text'', PyStr '' Hello '')], PyDict [(''text'', PyStr [])],
                   PyDict [(''text'', PyStr ''world'')]]"
  let ?t = "\<lparr>fetch = Inr (PyList ?entries)\<rparr>"
  let ?tlist = "track_list [(''en'', ?t)]"
  have 1: "extract_video_id ''https://www.youtube.com/watch?v=abc123'' = Inr (Some ''abc123'')"
    by code_simp
  have 2: "''abc123'' \<noteq> []"
    by simp
  have 3: "(\<lambda>video_id. Inr ?tlist) ''abc123'' = Inr ?tlist"
    by simp
  have 4: "select_transcript ?tlist ''en'' = (Some ?t, [])"
    by code_simp
  have 5: "fetch ?t = Inr (PyList ?entries)"
    by simp
  have 6: "filter spec_kept_entry ?entries \<noteq> []"
    by code_simp
  from transcript_document_from_kept_entries
      [of "''https://www.youtube.com/watch?v=abc123''" "''abc123''" "\<lambda>video_id. Inr ?tlist"
      ?tlist "''en''" ?t "[]" ?entries, OF 1 2 3 4 5 6]
  show ?thesis
    by simp
qed

text \<open>
  Claim C6, as the code has it. When a track has been selected, its fetch returns a
  sequence of entries and no entry of the sequence is kept, \<open>get_transcript_text\<close>
  returns no document and shows one error after the notices of the selection: for a
  non-empty sequence the error \<open>No valid transcript text found in the video\<close>, and for
  the empty sequence, which the check of line 52 stops before the loop, the error
  \<open>No transcript data received\<close>.
\<close>

theorem no_document_without_kept_entries:
  assumes "extract_video_id url = Inr (Some video_id)" and "video_id \<noteq> []"
    and "list_transcripts video_id = Inr tlist"
    and "select_transcript tlist language = (Some t, shown)"
    and "fetch t = Inr (PyList entries)"
    and "filter spec_kept_entry entries = []"
  shows "get_transcript_text list_transcripts url language =
           (None,
            shown @ [Error (if entries = [] then ''No transcript data received''
                            else ''No valid transcript text found in the video'')])"
  using assms
  by (simp add: get_transcript_text_def join_transcript_data_list)

theorem no_document_without_kept_entries_witness:
  "get_transcript_text
     (\<lambda>video_id. Inr (track_list [(''en'',
        \<lparr>fetch = Inr (PyList [PyDict [(''text'', PyStr [])], PyDict [(''start'', PyInt 0)],
                               PyDict [(''text'', PyInt 5)], PyStr ''stray''])\<rparr>)]))
     ''https://youtu.be/xyz789'' ''en''
   = (None, [Error ''No valid transcript text found in the video''])
   \<and> get_transcript_text
     (\<lambda>video_id. Inr (track_list [(''en'', \<lparr>fetch = Inr (PyList [])\<rparr>)]))
     ''https://www.youtube.com/watch?v=abc123'' ''en''
   = (None, [Error ''No transcript data received''])"
proof -
  let ?entries = "[PyDict [(''text'', PyStr [])], PyDict [(''start'', PyInt 0)],
                   PyDict [(''text'', PyInt 5)], PyStr ''stray'']"
  let ?t = "\<lparr>fetch = Inr (PyList ?entries)\<rparr>"
  let ?tlist = "track_list [(''en'', ?t)]"
  have 1: "extract_video_id ''https://youtu.be/xyz789'' = Inr (Some ''xyz789'')"
    by code_simp
  have 2: "''xyz789'' \<noteq> []"
    by simp
  have 3: "(\<lambda>video_id. Inr ?tlist) ''xyz789'' = Inr ?tlist"
    by simp
  have 4: "select_transcript ?tlist ''en'' = (Some ?t, [])"
    by code_simp
  have 5: "fetch ?t = Inr (PyList ?entries)"
    by simp
  have 6: "filter spec_kept_entry ?entries = []"
    by code_simp
  from no_document_without_kept_entries
      [of "''https://youtu.be/xyz789''" "''xyz789''" "\<lambda>video_id. Inr ?tlist"
      ?tlist "''en''" ?t "[]" ?entries, OF 1 2 3 4 5 6]
  have first: "get_transcript_text (\<lambda>video_id. Inr ?tlist) ''https://youtu.be/xyz789'' ''en''
      = (None, [Error ''No valid transcript text found in the video''])"
    by simp
  let ?t0 = "\<lparr>fetch = Inr (PyList [])\<rparr>"
  let ?tlist0 = "track_list [(''en'', ?t0)]"
  have e1: "extract_video_id ''https://www.youtube.com/watch?v=abc123'' = Inr (Some ''abc123'')"
    by code_simp
  have e2: "''abc123'' \<noteq> []"
    by simp
  have e3: "(\<lambda>video_id. Inr ?tlist0) ''abc123'' = Inr ?tlist0"
    by simp
  have e4: "select_transcript ?tlist0 ''en'' = (Some ?t0, [])"
    by code_simp
  have e5: "fetch ?t0 = Inr (PyList [])"
    by simp
  have e6: "filter spec_kept_entry [] = []"
    by simp
  from no_document_without_kept_entries
      [of "''https://www.youtube.com/watch?v=abc123''" "''abc123''" "\<lambda>video_id. Inr ?tlist0"
      ?tlist0 "''en''" ?t0 "[]" "[]", OF e1 e2 e3 e4 e5 e6]
  have second: "get_transcript_text (\<lambda>video_id. Inr ?tlist0)
        ''https://www.youtube.com/watch?v=abc123'' ''en''
      = (None, [Error ''No transcript data received''])"
    by simp
  from first second show ?thesis
    by blast
qed

text \<open>Claim C6 as stated fails: for the empty fetched sequence zero valid entries remain,
  and the error shown is not the one of missing valid text.\<close>

theorem empty_sequence_reported_as_no_data:
  "get_transcript_text
     (\<lambda>video_id. Inr (track_list [(''en'', \<lparr>fetch = Inr (PyList [])\<rparr>)]))
     ''https://youtu.be/xyz789'' ''en''
   = (None, [Error ''No transcript data received''])"
  by code_simp

text \<open>
  Claim C7. When the lookup of the preferred language fails, the English track is
  looked up. If it exists, \<open>get_transcript_text\<close> goes on with the English track and
  shows the fallback warning first: the result is what fetching and joining the English
  track gives. If the English lookup fails too, the only notice is the error
  \<open>Could not find transcript\<close> with the message of that second failure, and no document
  is returned.
\<close>

theorem fallback_to_english_track:
  assumes "extract_video_id url = Inr (Some video_id)" and "video_id \<noteq> []"
    and "list_transcripts video_id = Inr tlist"
    and "find_transcript tlist [language] = Inl e"
  shows "(\<forall>t. find_transcript tlist [''en''] = Inr t \<longrightarrow>
            get_transcript_text list_transcripts url language =
              (case fetch t of
                 Inl e' \<Rightarrow>
                   (None,
                    [Warning ''Transcript not available in selected language. Using English instead.'',
                     Error (''Failed to fetch transcript data: '' @ exception_str e')])
               | Inr transcript_data \<Rightarrow>
                   (fst (join_transcript_data transcript_data),
                    Warning ''Transcript not available in selected language. Using English instead.''
                      # snd (join_transcript_data transcript_data))))
         \<and> (\<forall>e'. find_transcript tlist [''en''] = Inl e' \<longrightarrow>
            get_transcript_text list_transcripts url language =
              (None, [Error (''Could not find transcript: '' @ exception_str e')]))"
  using assms
  by (auto simp: get_transcript_text_def select_transcript_def split: sum.splits prod.splits)

theorem fallback_to_english_track_witness:
  "get_transcript_text
     (\<lambda>video_id. Inr (track_list
        [(''fr'', \<lparr>fetch = Inr (PyList [PyDict [(''text'', PyStr ''bonjour'')]])\<rparr>),
         (''en'', \<lparr>fetch = Inr (PyList [PyDict [(''text'', PyStr ''hello'')]])\<rparr>)]))
     ''https://youtu.be/xyz789'' ''es''
   = (Some ''hello'',
      [Warning ''Transcript not available in selected language. Using English instead.''])
   \<and> get_transcript_text
     (\<lambda>video_id. Inr (track_list
        [(''fr'', \<lparr>fetch = Inr (PyList [PyDict [(''text'', PyStr ''bonjour'')]])\<rparr>)]))
     ''https://youtu.be/xyz789'' ''es''
   = (None, [Error ''Could not find transcript: No transcripts were found for: en''])"
proof -
  let ?fr = "\<lparr>fetch = Inr (PyList [PyDict [(''text'', PyStr ''bonjour'')]])\<rparr>"
  let ?en = "\<lparr>fetch = Inr (PyList [PyDict [(''text'', PyStr ''hello'')]])\<rparr>"
  let ?both = "track_list [(''fr'', ?fr), (''en'', ?en)]"
  let ?one = "track_list [(''fr'', ?fr)]"
  have 1: "extract_video_id ''https://youtu.be/xyz789'' = Inr (Some ''xyz789'')"
    by code_simp
  have 2: "''xyz789'' \<noteq> []"
    by simp
  have b3: "(\<lambda>video_id. Inr ?both) ''xyz789'' = Inr ?both"
    by simp
  have b4: "find_transcript ?both [''es''] = Inl (ServiceError ''No transcripts were found for: es'')"
    by code_simp
  have b5: "find_transcript ?both [''en''] = Inr ?en"
    by code_simp
  have b6: "join_transcript_data (PyList [PyDict [(''text'', PyStr ''hello'')]]) = (Some ''hello'', [])"
    by code_simp
  from fallback_to_english_track
      [of "''https://youtu.be/xyz789''" "''xyz789''" "\<lambda>video_id. Inr ?both" ?both "''es''",
       OF 1 2 b3 b4] b5 b6
  have first: "get_transcript_text (\<lambda>video_id. Inr ?both) ''https://youtu.be/xyz789'' ''es''
      = (Some ''hello'',
         [Warning ''Transcript not available in selected language. Using English instead.''])"
    by simp
  have o3: "(\<lambda>video_id. Inr ?one) ''xyz789'' = Inr ?one"
    by simp
  have o4: "find_transcript ?one [''es''] = Inl (ServiceError ''No transcripts were found for: es'')"
    by code_simp
  have o5: "find_transcript ?one [''en''] = Inl (ServiceError ''No transcripts were found for: en'')"
    by code_simp
  from fallback_to_english_track
      [of "''https://youtu.be/xyz789''" "''xyz789''" "\<lambda>video_id. Inr ?one" ?one "''es''",
       OF 1 2 o3 o4] o5
  have second: "get_transcript_text (\<lambda>video_id. Inr ?one) ''https://youtu.be/xyz789'' ''es''
      = (None, [Error ''Could not find transcript: No transcripts were found for: en''])"
    by simp
  from first second show ?thesis
    by blast
qed

text \<open>
  Claim C10. There are fetched sequences whose entries all have a non-empty text of
  whitespace only, and for which a document is returned and no error is shown: the
  entry with the text of two spaces is kept and trimmed to the empty string, and the
  document is the empty string; two such entries give a document that is a single
  space; a whitespace-only entry before the text \<open>a\<close> gives a document with a leading
  space.
\<close>

theorem whitespace_only_entries_give_blank_document:
  "spec_kept_entry (PyDict [(''text'', PyStr ''  '')])
   \<and> collect_text [PyDict [(''text'', PyStr ''  '')]] [] = [[]]
   \<and> get_transcript_text
        (\<lambda>video_id. Inr (track_list [(''en'',
           \<lparr>fetch = Inr (PyList [PyDict [(''text'', PyStr ''  '')]])\<rparr>)]))
        ''https://youtu.be/xyz789'' ''en''
      = (Some [], [])
   \<and> get_transcript_text
        (\<lambda>video_id. Inr (track_list [(''en'',
           \<lparr>fetch = Inr (PyList [PyDict [(''text'', PyStr ''  '')],
                                  PyDict [(''text'', PyStr '' '')]])\<rparr>)]))
        ''https://youtu.be/xyz789'' ''en''
      = (Some '' '', [])
   \<and> get_transcript_text
        (\<lambda>video_id. Inr (track_list [(''en'',
           \<lparr>fetch = Inr (PyList [PyDict [(''text'', PyStr '' '')],
                                  PyDict [(''text'', PyStr ''a'')]])\<rparr>)]))
        ''https://youtu.be/xyz789'' ''en''
      = (Some '' a'', [])"
  by code_simp

section \<open>The summary request\<close>

text \<open>The handler never reads the selected language.\<close>

lemma generate_summary_clicked_ignores_language:
  "generate_summary_clicked list_transcripts generate_content youtube_url language summary_length
     = generate_summary_clicked list_transcripts generate_content youtube_url language' summary_length"
  by (simp add: generate_summary_clicked_def)

text \<open>
  Claim C1, at a failing input. The video has a Spanish and an English track and the
  user selects \<open>es\<close>. Called with the selected language, \<open>get_transcript_text\<close> returns the
  Spanish text; the handler of the button calls it without the language, so the first
  lookup is for \<open>en\<close>: the summary is made from the English text, with no fallback
  warning, and is the one shown when \<open>en\<close> is selected.
\<close>

theorem selected_language_not_passed:
  "get_transcript_text
     (\<lambda>video_id. Inr (track_list
        [(''es'', \<lparr>fetch = Inr (PyList [PyDict [(''text'', PyStr ''hola mundo'')]])\<rparr>),
         (''en'', \<lparr>fetch = Inr (PyList [PyDict [(''text'', PyStr ''hello world'')]])\<rparr>)]))
     ''https://www.youtube.com/watch?v=abc123'' ''es''
   = (Some ''hola mundo'', [])
   \<and> generate_summary_clicked
     (\<lambda>video_id. Inr (track_list
        [(''es'', \<lparr>fetch = Inr (PyList [PyDict [(''text'', PyStr ''hola mundo'')]])\<rparr>),
         (''en'', \<lparr>fetch = Inr (PyList [PyDict [(''text'', PyStr ''hello world'')]])\<rparr>)]))
     Inr ''https://www.youtube.com/watch?v=abc123'' ''es'' Medium
   = [Subheader ''Video Summary'', Markdown (DEFAULT_PROMPT Medium @ ''hello world'')]"
  by code_simp

text \<open>
  Claim C9. Once a transcript has been retrieved, the generation service is consulted
  on exactly one input, the directive followed directly by the transcript, and its
  answer there decides what is shown: a non-empty text is shown as the summary; an
  exception is reported with its message, followed by the failure notice; an empty text
  gives the failure notice alone. \<open>generate_summary\<close> itself returns the answer of the
  service on \<open>prompt + transcript\<close>, or no text and the error. So a service that echoes
  its input yields the directive with the transcript appended after it, and this is
  what is shown as the summary.
\<close>

theorem generation_input_is_directive_then_transcript:
  assumes "youtube_url \<noteq> []"
    and "get_transcript_text list_transcripts youtube_url ''en'' = (Some transcript, shown)"
    and "transcript \<noteq> []"
  shows "(\<forall>g answer. g (prompt @ transcript) = Inr answer \<longrightarrow>
            generate_summary g transcript prompt = (Some answer, []))
         \<and> (\<forall>g e. g (prompt @ transcript) = Inl e \<longrightarrow>
            generate_summary g transcript prompt
              = (None, [Error (''AI Generation Error: '' @ exception_str e)]))
         \<and> (\<forall>g answer. g (DEFAULT_PROMPT summary_length @ transcript) = Inr answer \<and> answer \<noteq> [] \<longrightarrow>
            generate_summary_clicked list_transcripts g youtube_url language summary_length
              = shown @ [Subheader ''Video Summary'', Markdown answer])
         \<and> (\<forall>g. g (DEFAULT_PROMPT summary_length @ transcript) = Inr [] \<longrightarrow>
            generate_summary_clicked list_transcripts g youtube_url language summary_length
              = shown @ [Error ''Failed to generate summary''])
         \<and> (\<forall>g e. g (DEFAULT_PROMPT summary_length @ transcript) = Inl e \<longrightarrow>
            generate_summary_clicked list_transcripts g youtube_url language summary_length
              = shown @ [Error (''AI Generation Error: '' @ exception_str e),
                         Error ''Failed to generate summary''])
         \<and> (\<forall>g g'. g (DEFAULT_PROMPT summary_length @ transcript)
                    = g' (DEFAULT_PROMPT summary_length @ transcript) \<longrightarrow>
            generate_summary_clicked list_transcripts g youtube_url language summary_length
              = generate_summary_clicked list_transcripts g' youtube_url language summary_length)
         \<and> generate_summary Inr transcript (DEFAULT_PROMPT summary_length)
              = (Some (DEFAULT_PROMPT summary_length @ transcript), [])
         \<and> generate_summary_clicked list_transcripts Inr youtube_url language summary_length
              = shown @ [Subheader ''Video Summary'',
                         Markdown (DEFAULT_PROMPT summary_length @ transcript)]"
proof (intro conjI allI impI)
  fix g :: generation_service and answer :: string
  assume "g (prompt @ transcript) = Inr answer"
  then show "generate_summary g transcript prompt = (Some answer, [])"
    by (simp add: generate_summary_def)
next
  fix g :: generation_service and e :: py_exception
  assume "g (prompt @ transcript) = Inl e"
  then show "generate_summary g transcript prompt
      = (None, [Error (''AI Generation Error: '' @ exception_str e)])"
    by (simp add: generate_summary_def)
next
  fix g :: generation_service and answer :: string
  assume "g (DEFAULT_PROMPT summary_length @ transcript) = Inr answer \<and> answer \<noteq> []"
  with assms
  show "generate_summary_clicked list_transcripts g youtube_url language summary_length
      = shown @ [Subheader ''Video Summary'', Markdown answer]"
    by (simp add: generate_summary_clicked_def generate_summary_def)
next
  fix g :: generation_service
  assume "g (DEFAULT_PROMPT summary_length @ transcript) = Inr []"
  with assms
  show "generate_summary_clicked list_transcripts g youtube_url language summary_length
      = shown @ [Error ''Failed to generate summary'']"
    by (simp add: generate_summary_clicked_def generate_summary_def)
next
  fix g :: generation_service and e :: py_exception
  assume "g (DEFAULT_PROMPT summary_length @ transcript) = Inl e"
  with assms
  show "generate_summary_clicked list_transcripts g youtube_url language summary_length
      = shown @ [Error (''AI Generation Error: '' @ exception_str e),
                 Error ''Failed to generate summary'']"
    by (simp add: generate_summary_clicked_def generate_summary_def)
next
  fix g g' :: generation_service
  assume "g (DEFAULT_PROMPT summary_length @ transcript)
            = g' (DEFAULT_PROMPT summary_length @ transcript)"
  with assms
  show "generate_summary_clicked list_transcripts g youtube_url language summary_length
      = generate_summary_clicked list_transcripts g' youtube_url language summary_length"
    by (simp add: generate_summary_clicked_def generate_summary_def)
next
  show "generate_summary Inr transcript (DEFAULT_PROMPT summary_length)
      = (Some (DEFAULT_PROMPT summary_length @ transcript), [])"
    by (simp add: generate_summary_def)
next
  from assms have "DEFAULT_PROMPT summary_length @ transcript \<noteq> []"
    by simp
  with assms
  show "generate_summary_clicked list_transcripts Inr youtube_url language summary_length
      = shown @ [Subheader ''Video Summary'',
                 Markdown (DEFAULT_PROMPT summary_length @ transcript)]"
    by (simp add: generate_summary_clicked_def generate_summary_def)
qed

theorem generation_input_is_directive_then_transcript_witness:
  "generate_summary_clicked
     (\<lambda>video_id. Inr (track_list [(''en'',
        \<lparr>fetch = Inr (PyList [PyDict [(''text'', PyStr ''first line'')],
                               PyDict [(''text'', PyStr ''second line'')]])\<rparr>)]))
     Inr ''https://www.youtube.com/watch?v=abc123'' ''en'' Short
   = [Subheader ''Video Summary'', Markdown (DEFAULT_PROMPT Short @ ''first line second line'')]
   \<and> generate_summary_clicked
     (\<lambda>video_id. Inr (track_list [(''en'',
        \<lparr>fetch = Inr (PyList [PyDict [(''text'', PyStr ''first line'')],
                               PyDict [(''text'', PyStr ''second line'')]])\<rparr>)]))
     (\<lambda>input. if input = DEFAULT_PROMPT Short @ ''first line second line''
               then Inr ''SUMMARY'' else Inl (ServiceError ''other input''))
     ''https://www.youtube.com/watch?v=abc123'' ''en'' Short
   = [Subheader ''Video Summary'', Markdown ''SUMMARY'']
   \<and> generate_summary_clicked
     (\<lambda>video_id. Inr (track_list [(''en'',
        \<lparr>fetch = Inr (PyList [PyDict [(''text'', PyStr ''first line'')],
                               PyDict [(''text'', PyStr ''second line'')]])\<rparr>)]))
     (\<lambda>input. Inl (ServiceError ''quota exceeded''))
     ''https://www.youtube.com/watch?v=abc123'' ''en'' Short
   = [Error ''AI Generation Error: quota exceeded'', Error ''Failed to generate summary'']"
proof -
  let ?api = "\<lambda>video_id :: string. (Inr (track_list [(''en'',
        \<lparr>fetch = Inr (PyList [PyDict [(''text'', PyStr ''first line'')],
                               PyDict [(''text'', PyStr ''second line'')]])\<rparr>)])
        :: py_exception + transcript_list)"
  let ?url = "''https://www.youtube.com/watch?v=abc123''"
  let ?only = "\<lambda>input. if input = DEFAULT_PROMPT Short @ ''first line second line''
               then Inr ''SUMMARY'' else Inl (ServiceError ''other input'')"
  let ?fails = "\<lambda>input :: string. (Inl (ServiceError ''quota exceeded'') :: py_exception + string)"
  have 1: "?url \<noteq> []"
    by simp
  have 2: "get_transcript_text ?api ?url ''en'' = (Some ''first line second line'', [])"
    by code_simp
  have 3: "''first line second line'' \<noteq> []"
    by simp
  note all = generation_input_is_directive_then_transcript
      [of ?url ?api "''first line second line''" "[]" "[]" Short "''en''", OF 1 2 3]
  note shown_answer = all [THEN conjunct2, THEN conjunct2, THEN conjunct1, rule_format]
  note shown_failure =
    all [THEN conjunct2, THEN conjunct2, THEN conjunct2, THEN conjunct2, THEN conjunct1, rule_format]
  have "Inr (DEFAULT_PROMPT Short @ ''first line second line'')
          = (Inr (DEFAULT_PROMPT Short @ ''first line second line'') :: py_exception + string)
        \<and> DEFAULT_PROMPT Short @ ''first line second line'' \<noteq> []"
    by simp
  from shown_answer [of Inr "DEFAULT_PROMPT Short @ ''first line second line''", OF this]
  have echo: "generate_summary_clicked ?api Inr ?url ''en'' Short
      = [Subheader ''Video Summary'', Markdown (DEFAULT_PROMPT Short @ ''first line second line'')]"
    by simp
  have "?only (DEFAULT_PROMPT Short @ ''first line second line'') = Inr ''SUMMARY''
          \<and> ''SUMMARY'' \<noteq> []"
    by simp
  from shown_answer [of ?only "''SUMMARY''", OF this]
  have only: "generate_summary_clicked ?api ?only ?url ''en'' Short
      = [Subheader ''Video Summary'', Markdown ''SUMMARY'']"
    by simp
  have "?fails (DEFAULT_PROMPT Short @ ''first line second line'')
          = Inl (ServiceError ''quota exceeded'')"
    by simp
  from shown_failure [of ?fails "ServiceError ''quota exceeded''", OF this]
  have fails: "generate_summary_clicked ?api ?fails ?url ''en'' Short
      = [Error ''AI Generation Error: quota exceeded'', Error ''Failed to generate summary'']"
    by simp
  from echo only fails show ?thesis
    by blast
qed

end
